theory Spec2Isabelle
  imports Complex_Main
begin

section \<open>Data model (models.py)\<close>

text \<open>
  Identifiers produced by \<^verbatim>\<open>gen_uuid()\<close> and timestamps produced by \<^verbatim>\<open>now()\<close> are opaque
  values; they are modelled as natural numbers. Python floats are idealised as real
  numbers (every operation is exact, where the program rounds to a double), Python ints as
  \<open>int\<close>. Where the same field name occurs in several classes
  (\<^verbatim>\<open>created_at\<close>, \<^verbatim>\<open>updated_at\<close>, \<^verbatim>\<open>is_active\<close>) the record field carries the class
  name as a prefix, except \<^verbatim>\<open>Match.is_active\<close>; \<^verbatim>\<open>Photo.order\<close> is \<open>photo_order\<close>.
\<close>

type_synonym uuid = nat
type_synonym datetime = nat

record date =
  year :: int
  month :: int
  day :: int

datatype Gender = MALE | FEMALE | NONBINARY | OTHER

record Location =
  lat :: real
  lon :: real
  city :: string
  country :: string

record Photo =
  photo_id :: uuid
  url :: string
  photo_order :: int
  uploaded_at :: "datetime option"

record Preferences =
  gender_preference :: "Gender list"
  age_min :: int
  age_max :: int
  max_distance_km :: int
  interests :: "string list"

record Profile =
  profile_id :: uuid
  display_name :: string
  birthdate :: "date option"
  gender :: "Gender option"
  bio :: string
  photos :: "Photo list"
  location :: "Location option"
  preferences :: Preferences
  profile_created_at :: datetime
  profile_updated_at :: datetime

record User =
  user_id :: uuid
  email :: string
  password_hash :: string
  user_created_at :: datetime
  last_login :: "datetime option"
  user_is_active :: bool
  profile :: "Profile option"
  email_verified :: bool

record Swipe =
  swipe_id :: uuid
  from_user :: User
  to_user :: User
  direction :: string
  timestamp :: datetime

record Match =
  match_id :: uuid
  user_a :: User
  user_b :: User
  match_created_at :: datetime
  is_active :: bool

text \<open>\<^verbatim>\<open>Match.unmatch\<close>: clears the active flag and nothing else.\<close>

definition unmatch :: "Match \<Rightarrow> Match" where
  "unmatch m = m\<lparr>is_active := False\<rparr>"

section \<open>The in-memory store (storage.py)\<close>

text \<open>
  A Python \<^verbatim>\<open>dict\<close> iterates in insertion order, and assigning to a key that is already
  present keeps that key's position. It is modelled as an association list with
  \<open>dict_set\<close> for \<^verbatim>\<open>d[k] = v\<close> and \<open>dict_values\<close> for \<^verbatim>\<open>d.values()\<close>.
\<close>

type_synonym ('k, 'v) dict = "('k \<times> 'v) list"

fun dict_set :: "'k \<Rightarrow> 'v \<Rightarrow> ('k, 'v) dict \<Rightarrow> ('k, 'v) dict" where
  "dict_set k v [] = [(k, v)]"
| "dict_set k v (p # ps) = (if fst p = k then (k, v) # ps else p # dict_set k v ps)"

definition dict_values :: "('k, 'v) dict \<Rightarrow> 'v list" where
  "dict_values d = map snd d"

text \<open>
  Of the eight collections of \<^verbatim>\<open>InMemoryDB\<close> the three that \<^verbatim>\<open>add_user\<close>, \<^verbatim>\<open>add_swipe\<close>,
  \<^verbatim>\<open>_match_exists_between\<close> and \<^verbatim>\<open>add_match\<close> read or write are modelled.
\<close>

record InMemoryDB =
  users :: "(uuid, User) dict"
  swipes :: "(uuid, Swipe) dict"
  matches :: "(uuid, Match) dict"

text \<open>\<^verbatim>\<open>InMemoryDB.__init__\<close>: every collection starts empty.\<close>

definition init_db :: InMemoryDB where
  "init_db = \<lparr>users = [], swipes = [], matches = []\<rparr>"

definition add_user :: "InMemoryDB \<Rightarrow> User \<Rightarrow> InMemoryDB" where
  "add_user db u = db\<lparr>users := dict_set (user_id u) u (users db)\<rparr>"

text \<open>
  The test of \<^verbatim>\<open>_match_exists_between\<close> on one match: the pair \<open>(a, b)\<close> in either order,
  compared by user identifier. The active flag is not read.
\<close>

definition is_between :: "User \<Rightarrow> User \<Rightarrow> Match \<Rightarrow> bool" where
  "is_between a b m \<longleftrightarrow>
     (user_id (user_a m) = user_id a \<and> user_id (user_b m) = user_id b) \<or>
     (user_id (user_a m) = user_id b \<and> user_id (user_b m) = user_id a)"

text \<open>The loop of \<^verbatim>\<open>_match_exists_between\<close> over \<^verbatim>\<open>self.matches.values()\<close>.\<close>

fun match_exists_in :: "Match list \<Rightarrow> User \<Rightarrow> User \<Rightarrow> bool" where
  "match_exists_in [] a b = False"
| "match_exists_in (m # ms) a b = (if is_between a b m then True else match_exists_in ms a b)"

definition match_exists_between :: "InMemoryDB \<Rightarrow> User \<Rightarrow> User \<Rightarrow> bool" where
  "match_exists_between db a b = match_exists_in (dict_values (matches db)) a b"

text \<open>
  The condition of the inner \<^verbatim>\<open>if\<close> of \<^verbatim>\<open>add_swipe\<close>: \<open>other\<close> is a like in the reverse
  direction of \<open>swipe\<close>.
\<close>

definition is_reverse_like :: "Swipe \<Rightarrow> Swipe \<Rightarrow> bool" where
  "is_reverse_like swipe other \<longleftrightarrow>
     user_id (from_user other) = user_id (to_user swipe) \<and>
     user_id (to_user other) = user_id (from_user swipe) \<and>
     direction other = ''like''"

text \<open>
  The constructor call \<^verbatim>\<open>Match(user_a=swipe.from_user, user_b=swipe.to_user)\<close>. The field
  defaults are \<^verbatim>\<open>match_id = gen_uuid()\<close>, \<^verbatim>\<open>created_at = now()\<close> and
  \<^verbatim>\<open>is_active = True\<close>; \<open>mid\<close> and \<open>t\<close> are the values the two calls yield.
\<close>

definition new_match :: "uuid \<Rightarrow> datetime \<Rightarrow> Swipe \<Rightarrow> Match" where
  "new_match mid t swipe =
     \<lparr>match_id = mid, user_a = from_user swipe, user_b = to_user swipe,
      match_created_at = t, is_active = True\<rparr>"

text \<open>
  The \<^verbatim>\<open>for other in self.swipes.values()\<close> loop of \<^verbatim>\<open>add_swipe\<close>. It returns from inside
  its body as soon as a match is created, and falls through to \<^verbatim>\<open>return None\<close> otherwise.
\<close>

fun add_swipe_loop ::
  "uuid \<Rightarrow> datetime \<Rightarrow> InMemoryDB \<Rightarrow> Swipe \<Rightarrow> Swipe list \<Rightarrow> Match option \<times> InMemoryDB" where
  "add_swipe_loop mid t db swipe [] = (None, db)"
| "add_swipe_loop mid t db swipe (other # rest) =
     (if is_reverse_like swipe other then
        (if \<not> match_exists_between db (from_user swipe) (to_user swipe) then
           (let m = new_match mid t swipe
            in (Some m, db\<lparr>matches := dict_set (match_id m) m (matches db)\<rparr>))
         else add_swipe_loop mid t db swipe rest)
      else add_swipe_loop mid t db swipe rest)"

text \<open>
  \<^verbatim>\<open>add_swipe\<close> (the spec's \<^verbatim>\<open>record_swipe\<close>): the swipe is stored first, so the scan also
  sees the swipe itself.
\<close>

definition add_swipe ::
  "uuid \<Rightarrow> datetime \<Rightarrow> InMemoryDB \<Rightarrow> Swipe \<Rightarrow> Match option \<times> InMemoryDB" where
  "add_swipe mid t db swipe =
     (let db1 = db\<lparr>swipes := dict_set (swipe_id swipe) swipe (swipes db)\<rparr>
      in if direction swipe = ''like''
         then add_swipe_loop mid t db1 swipe (dict_values (swipes db1))
         else (None, db1))"

definition add_match :: "InMemoryDB \<Rightarrow> Match \<Rightarrow> InMemoryDB" where
  "add_match db m = db\<lparr>matches := dict_set (match_id m) m (matches db)\<rparr>"

text \<open>
  The store holds the very \<^verbatim>\<open>Match\<close> object that \<^verbatim>\<open>add_swipe\<close> returned, so calling
  \<^verbatim>\<open>unmatch()\<close> on it changes the entry in \<^verbatim>\<open>self.matches\<close>. \<open>unmatch_stored\<close> is that
  effect for the match stored under key \<open>k\<close>.
\<close>

definition unmatch_stored :: "uuid \<Rightarrow> InMemoryDB \<Rightarrow> InMemoryDB" where
  "unmatch_stored k db =
     db\<lparr>matches := map (\<lambda>(k', m). (k', if k' = k then unmatch m else m)) (matches db)\<rparr>"

text \<open>
  A history of the store in which no match is deleted: swipes are recorded and stored
  matches are deactivated, in any order.
\<close>

datatype db_op = RecordSwipe uuid datetime Swipe | Deactivate uuid

fun apply_db_op :: "InMemoryDB \<Rightarrow> db_op \<Rightarrow> InMemoryDB" where
  "apply_db_op db (RecordSwipe mid t s) = snd (add_swipe mid t db s)"
| "apply_db_op db (Deactivate k) = unmatch_stored k db"

definition run_ops :: "InMemoryDB \<Rightarrow> db_op list \<Rightarrow> InMemoryDB" where
  "run_ops db ops = foldl apply_db_op db ops"

text \<open>The stored matches that pair \<open>a\<close> and \<open>b\<close>, in either order.\<close>

definition matches_between :: "InMemoryDB \<Rightarrow> User \<Rightarrow> User \<Rightarrow> Match list" where
  "matches_between db a b = filter (is_between a b) (dict_values (matches db))"

section \<open>Age and completeness (utils.py, models.py)\<close>

text \<open>
  \<^verbatim>\<open>date.today()\<close> is an input of the program; it is the argument \<open>today\<close>. Python compares
  the tuples \<^verbatim>\<open>(month, day)\<close> lexicographically, and the boolean result is subtracted as
  0 or 1.
\<close>

definition tuple_lt :: "int \<times> int \<Rightarrow> int \<times> int \<Rightarrow> bool" where
  "tuple_lt p q \<longleftrightarrow> fst p < fst q \<or> (fst p = fst q \<and> snd p < snd q)"

definition age_from_birthdate :: "date \<Rightarrow> date \<Rightarrow> int" where
  "age_from_birthdate today bd =
     year today - year bd
       - (if tuple_lt (month today, day today) (month bd, day bd) then 1 else 0)"

text \<open>\<^verbatim>\<open>Profile.age\<close>: \<^verbatim>\<open>None\<close> without a birthdate.\<close>

definition age :: "date \<Rightarrow> Profile \<Rightarrow> int option" where
  "age today self =
     (case birthdate self of None \<Rightarrow> None | Some bd \<Rightarrow> Some (age_from_birthdate today bd))"

definition matches_age :: "Preferences \<Rightarrow> int \<Rightarrow> bool" where
  "matches_age self a \<longleftrightarrow> age_min self \<le> a \<and> a \<le> age_max self"

text \<open>Python's \<^verbatim>\<open>int(x)\<close> on a float truncates toward zero.\<close>

definition py_int :: "real \<Rightarrow> int" where
  "py_int x = (if 0 \<le> x then \<lfloor>x\<rfloor> else \<lceil>x\<rceil>)"

definition complete_percentage :: "Profile \<Rightarrow> int" where
  "complete_percentage self =
     (let total = 6;
          score = (if display_name self \<noteq> [] then 1 else 0)
                + (if birthdate self \<noteq> None then 1 else 0)
                + (if gender self \<noteq> None then 1 else 0)
                + (if bio self \<noteq> [] then 1 else 0)
                + (if photos self \<noteq> [] then 1 else 0)
                + (if location self \<noteq> None then 1 else (0::int))
      in py_int ((real_of_int score / real_of_int total) * 100))"

text \<open>\<^verbatim>\<open>Location.distance_km_to\<close>; the source writes the root as \<^verbatim>\<open>** 0.5\<close>.\<close>

definition distance_km_to :: "Location \<Rightarrow> Location \<Rightarrow> real" where
  "distance_km_to self other =
     (let dx = (lat self - lat other) * 111;
          dy = (lon self - lon other) * 111
      in (dx * dx + dy * dy) powr 0.5)"

section \<open>The scoring engine (engine.py)\<close>

text \<open>
  The process-wide random source is the sequence of the values that successive calls of
  \<^verbatim>\<open>random.random()\<close> return; a call takes the first value and leaves the rest.
\<close>

type_synonym rng = "nat \<Rightarrow> real"

definition random_random :: "rng \<Rightarrow> real \<times> rng" where
  "random_random g = (g 0, \<lambda>n. g (Suc n))"

text \<open>
  The blocks of \<^verbatim>\<open>score\<close>, in source order; each takes the running value of the local
  variable \<^verbatim>\<open>score\<close> and returns the updated one. An \<^verbatim>\<open>Enum\<close> member and a dataclass
  instance are always truthy, so \<^verbatim>\<open>b.profile.gender and ...\<close> and \<^verbatim>\<open>a.profile.location and
  ...\<close> test for \<^verbatim>\<open>None\<close>; the test \<^verbatim>\<open>if b_age:\<close> is on an optional integer, false for
  \<^verbatim>\<open>None\<close> and for 0.
\<close>

definition score_gender :: "Preferences \<Rightarrow> Profile \<Rightarrow> real \<Rightarrow> real" where
  "score_gender pref pb s =
     (case gender pb of
        None \<Rightarrow> s - 10
      | Some g \<Rightarrow> if g \<in> set (gender_preference pref) then s + 20 else s - 10)"

definition score_age :: "date \<Rightarrow> Preferences \<Rightarrow> Profile \<Rightarrow> real \<Rightarrow> real" where
  "score_age today pref pb s =
     (case age today pb of
        None \<Rightarrow> s
      | Some b_age \<Rightarrow>
          if b_age \<noteq> 0 then
            (if matches_age pref b_age then s + 15
             else if b_age < age_min pref then s - real_of_int (age_min pref - b_age)
             else if b_age > age_max pref then s - real_of_int (b_age - age_max pref)
             else s)
          else s)"

definition shared_interests :: "Preferences \<Rightarrow> Profile \<Rightarrow> string set" where
  "shared_interests pref pb = set (interests pref) \<inter> set (interests (preferences pb))"

definition score_interests :: "Preferences \<Rightarrow> Profile \<Rightarrow> real \<Rightarrow> real" where
  "score_interests pref pb s =
     (let shared = shared_interests pref pb
      in s + 5 * real (card shared))"

definition score_completeness :: "Profile \<Rightarrow> real \<Rightarrow> real" where
  "score_completeness pb s = s + 0.1 * real_of_int (complete_percentage pb)"

definition score_distance :: "Profile \<Rightarrow> Profile \<Rightarrow> Preferences \<Rightarrow> real \<Rightarrow> real" where
  "score_distance pa pb pref s =
     (case location pa of
        None \<Rightarrow> s
      | Some la \<Rightarrow>
          (case location pb of
             None \<Rightarrow> s
           | Some lb \<Rightarrow>
               (let dist = distance_km_to la lb in
                if dist > real_of_int (max_distance_km pref)
                then s - (dist - real_of_int (max_distance_km pref)) * 0.2
                else s + max 0 ((real_of_int (max_distance_km pref) - dist)
                                  / real_of_int (max 1 (max_distance_km pref))) * 10)))"

text \<open>
  \<^verbatim>\<open>RecommendationEngine.score\<close>. The result is the returned float together with the
  random source as the call leaves it: the early return draws nothing.
\<close>

definition score :: "rng \<Rightarrow> date \<Rightarrow> User \<Rightarrow> User \<Rightarrow> real \<times> rng" where
  "score g today a b =
     (case profile a of
        None \<Rightarrow> (-1, g)
      | Some pa \<Rightarrow>
          (case profile b of
             None \<Rightarrow> (-1, g)
           | Some pb \<Rightarrow>
               (let pref = preferences pa;
                    s0 = 0;
                    s1 = score_gender pref pb s0;
                    s2 = score_age today pref pb s1;
                    s3 = score_interests pref pb s2;
                    s4 = score_completeness pb s3;
                    s5 = score_distance pa pb pref s4;
                    (r, g') = random_random g
                in (s5 + r * 2, g'))))"

text \<open>The \<^verbatim>\<open>for cand in candidates\<close> loop of \<^verbatim>\<open>compute_matches\<close>, building \<^verbatim>\<open>scored\<close>.\<close>

fun compute_matches_loop ::
  "rng \<Rightarrow> date \<Rightarrow> User \<Rightarrow> User list \<Rightarrow> (real \<times> User) list \<Rightarrow> (real \<times> User) list \<times> rng" where
  "compute_matches_loop g today user [] scored = (scored, g)"
| "compute_matches_loop g today user (cand # rest) scored =
     (if user_id cand = user_id user then compute_matches_loop g today user rest scored
      else (let (sc, g') = score g today user cand
            in compute_matches_loop g' today user rest (scored @ [(sc, cand)])))"

text \<open>
  \<^verbatim>\<open>scored.sort(key=lambda x: x[0], reverse=True)\<close>: descending by score, and stable, so
  entries of equal score keep their order. That is the stable ascending sort on the
  negated key.
\<close>

definition sort_scored :: "(real \<times> User) list \<Rightarrow> (real \<times> User) list" where
  "sort_scored scored = sort_key (\<lambda>x. - fst x) scored"

text \<open>
  The slice \<^verbatim>\<open>xs[:k]\<close>: a negative \<open>k\<close> counts from the end, and a stop before the start
  gives the empty list.
\<close>

definition py_slice_to :: "int \<Rightarrow> 'a list \<Rightarrow> 'a list" where
  "py_slice_to k xs = (if 0 \<le> k then take (nat k) xs else take (nat (int (length xs) + k)) xs)"

text \<open>
  \<^verbatim>\<open>compute_matches\<close>. The optional argument is \<open>None\<close> when the caller passes no
  \<^verbatim>\<open>top_k\<close>. \<open>ranked\<close> is the sorted and sliced list \<^verbatim>\<open>scored[:top_k]\<close> of (score, user)
  pairs, from which the result keeps the users.
\<close>

definition ranked :: "rng \<Rightarrow> date \<Rightarrow> User \<Rightarrow> User list \<Rightarrow> int option \<Rightarrow> (real \<times> User) list" where
  "ranked g today user candidates top_k_arg =
     (let top_k = (case top_k_arg of None \<Rightarrow> 10 | Some k \<Rightarrow> k);
          scored = fst (compute_matches_loop g today user candidates [])
      in py_slice_to top_k (sort_scored scored))"

definition compute_matches :: "rng \<Rightarrow> date \<Rightarrow> User \<Rightarrow> User list \<Rightarrow> int option \<Rightarrow> User list" where
  "compute_matches g today user candidates top_k_arg =
     map snd (ranked g today user candidates top_k_arg)"

section \<open>Example data\<close>

text \<open>
  The dataclass defaults of \<^verbatim>\<open>Preferences\<close>, \<^verbatim>\<open>Profile\<close> and \<^verbatim>\<open>User\<close>, the swipe
  \<^verbatim>\<open>Swipe(from_user=a, to_user=b, direction="like")\<close>, and a random source pinned to 0 as
  the tests pin it (\<^verbatim>\<open>lambda: 0.0\<close>).
\<close>

definition default_preferences :: Preferences where
  "default_preferences =
     \<lparr>gender_preference = [FEMALE, MALE, NONBINARY], age_min = 18, age_max = 99,
      max_distance_km = 100, interests = []\<rparr>"

definition default_profile :: "uuid \<Rightarrow> Profile" where
  "default_profile pid =
     \<lparr>profile_id = pid, display_name = [], birthdate = None, gender = None, bio = [],
      photos = [], location = None, preferences = default_preferences,
      profile_created_at = 0, profile_updated_at = 0\<rparr>"

definition default_user :: "uuid \<Rightarrow> User" where
  "default_user uid =
     \<lparr>user_id = uid, email = [], password_hash = [], user_created_at = 0,
      last_login = None, user_is_active = True, profile = None, email_verified = False\<rparr>"

definition like_swipe :: "uuid \<Rightarrow> User \<Rightarrow> User \<Rightarrow> Swipe" where
  "like_swipe sid a b =
     \<lparr>swipe_id = sid, from_user = a, to_user = b, direction = ''like'', timestamp = 0\<rparr>"

definition zero_rng :: rng where
  "zero_rng n = 0"

definition alice :: User where
  "alice = default_user 1"

definition bob :: User where
  "bob = default_user 2"

definition carol :: User where
  "carol = default_user 3"

text \<open>
  A history of the fresh store: Alice likes Bob, Bob likes Alice (a match is created
  under key 101), the match is deactivated, Alice likes Bob again.
\<close>

definition history :: "db_op list" where
  "history =
     [RecordSwipe 100 0 (like_swipe 10 alice bob),
      RecordSwipe 101 0 (like_swipe 11 bob alice),
      Deactivate 101,
      RecordSwipe 102 0 (like_swipe 12 alice bob)]"

definition one_like :: "db_op list" where
  "one_like = [RecordSwipe 100 0 (like_swipe 10 alice bob)]"

text \<open>
  Both likes of a mutual pair, and a second match object for the same pair as a caller
  of \<^verbatim>\<open>add_match\<close> may construct it.
\<close>

definition duplicate_match :: Match where
  "duplicate_match =
     \<lparr>match_id = 200, user_a = alice, user_b = bob, match_created_at = 0, is_active = True\<rparr>"

definition mutual_likes :: "db_op list" where
  "mutual_likes =
     [RecordSwipe 100 0 (like_swipe 10 alice bob),
      RecordSwipe 101 0 (like_swipe 11 bob alice)]"

text \<open>
  A date for \<^verbatim>\<open>date.today()\<close>, a viewer with the default profile, and a candidate whose
  birthdate lies in the current year, before today.
\<close>

definition ex_today :: date where
  "ex_today = \<lparr>year = 2024, month = 6, day = 15\<rparr>"

definition newborn_profile :: Profile where
  "newborn_profile = (default_profile 7)\<lparr>birthdate := Some \<lparr>year = 2024, month = 1, day = 1\<rparr>\<rparr>"

definition viewer :: User where
  "viewer = (default_user 4)\<lparr>profile := Some (default_profile 8)\<rparr>"

definition newborn :: User where
  "newborn = (default_user 5)\<lparr>profile := Some newborn_profile\<rparr>"

text \<open>
  Two locations one degree of latitude apart, a viewer at the first and a candidate at the
  second, both with otherwise default profiles.
\<close>

definition origin :: Location where
  "origin = \<lparr>lat = 0, lon = 0, city = [], country = []\<rparr>"

definition one_degree_north :: Location where
  "one_degree_north = \<lparr>lat = 1, lon = 0, city = [], country = []\<rparr>"

definition located_viewer :: User where
  "located_viewer = (default_user 20)\<lparr>profile := Some ((default_profile 21)\<lparr>location := Some origin\<rparr>)\<rparr>"

definition far_candidate :: User where
  "far_candidate =
     (default_user 22)\<lparr>profile := Some ((default_profile 23)\<lparr>location := Some one_degree_north\<rparr>)\<rparr>"

text \<open>
  A candidate that differs from another only in the interest list, a viewer who likes
  hiking and coffee, and two candidates with the same profile up to their interests.
\<close>

definition with_interests :: "Profile \<Rightarrow> string list \<Rightarrow> Profile" where
  "with_interests p ys = p\<lparr>preferences := (preferences p)\<lparr>interests := ys\<rparr>\<rparr>"




text \<open>
  The candidates that remain after \<^verbatim>\<open>compute_matches\<close> has skipped the user itself, and a
  candidate list that contains the viewing user.
\<close>

definition eligible :: "User \<Rightarrow> User list \<Rightarrow> User list" where
  "eligible user candidates = filter (\<lambda>c. user_id c \<noteq> user_id user) candidates"


section \<open>Properties of the store\<close>

lemma is_between_sym: "is_between a b m = is_between b a m"
  by (auto simp: is_between_def)

lemma is_between_same_pair:
  "is_between a b m0 \<Longrightarrow> is_between a b m = is_between (user_a m0) (user_b m0) m"
  by (auto simp: is_between_def)

lemma is_between_unmatch: "is_between a b (unmatch m) = is_between a b m"
  by (simp add: is_between_def unmatch_def)

lemma is_between_unmatch_if: "is_between a b (if c then unmatch m else m) = is_between a b m"
  by (simp add: is_between_unmatch)

lemma match_id_unmatch_if: "match_id (if c then unmatch m else m) = match_id m"
  by (simp add: unmatch_def)

lemma match_exists_in_iff: "match_exists_in ms a b \<longleftrightarrow> filter (is_between a b) ms \<noteq> []"
  by (induction ms) auto

lemma match_exists_between_iff:
  "match_exists_between db a b \<longleftrightarrow> matches_between db a b \<noteq> []"
  by (simp add: match_exists_between_def matches_between_def match_exists_in_iff)

lemma filter_values_dict_set_le:
  "length (filter P (dict_values (dict_set k v d)))
     \<le> length (filter P (dict_values d)) + (if P v then 1 else 0)"
  by (induction d) (auto simp: dict_values_def)

lemma filter_values_dict_set_new:
  "P v \<Longrightarrow> filter P (dict_values d) = [] \<Longrightarrow> filter P (dict_values (dict_set k v d)) = [v]"
  by (induction d) (auto simp: dict_values_def split: if_splits)

lemma dict_set_keeps_other:
  "(k', x) \<in> set d \<Longrightarrow> k' \<noteq> k \<Longrightarrow> (k', x) \<in> set (dict_set k v d)"
  by (induction d) auto

lemma add_swipe_loop_eq:
  "add_swipe_loop mid t db s xs =
     (if (\<exists>other \<in> set xs. is_reverse_like s other)
          \<and> \<not> match_exists_between db (from_user s) (to_user s)
      then (Some (new_match mid t s),
            db\<lparr>matches := dict_set mid (new_match mid t s) (matches db)\<rparr>)
      else (None, db))"
  by (induction xs) (auto simp: Let_def new_match_def)

lemma match_exists_swipes_update [simp]:
  "match_exists_between (db\<lparr>swipes := x\<rparr>) a b = match_exists_between db a b"
  by (simp add: match_exists_between_def)

lemma matches_between_swipes_update [simp]:
  "matches_between (db\<lparr>swipes := x\<rparr>) a b = matches_between db a b"
  by (simp add: matches_between_def)

lemma add_swipe_eq:
  "add_swipe mid t db s =
     (let db1 = db\<lparr>swipes := dict_set (swipe_id s) s (swipes db)\<rparr> in
      if direction s = ''like''
         \<and> (\<exists>other \<in> set (dict_values (swipes db1)). is_reverse_like s other)
         \<and> \<not> match_exists_between db (from_user s) (to_user s)
      then (Some (new_match mid t s),
            db1\<lparr>matches := dict_set mid (new_match mid t s) (matches db)\<rparr>)
      else (None, db1))"
  by (simp add: add_swipe_def add_swipe_loop_eq Let_def)

lemma is_between_new_match: "is_between (from_user s) (to_user s) (new_match mid t s)"
  by (simp add: is_between_def new_match_def)

lemma add_swipe_preserves:
  assumes "\<forall>a b. length (matches_between db a b) \<le> 1"
  shows "length (matches_between (snd (add_swipe mid t db s)) a b) \<le> 1"
proof (cases "fst (add_swipe mid t db s)")
  case None
  then have "matches (snd (add_swipe mid t db s)) = matches db"
    by (auto simp: add_swipe_eq Let_def split: if_splits)
  then show ?thesis using assms by (simp add: matches_between_def)
next
  case (Some m)
  then have m: "m = new_match mid t s"
    and nex: "\<not> match_exists_between db (from_user s) (to_user s)"
    and ms: "matches (snd (add_swipe mid t db s)) = dict_set mid m (matches db)"
    by (auto simp: add_swipe_eq Let_def split: if_splits)
  show ?thesis
  proof (cases "is_between a b m")
    case True
    have "is_between a b = is_between (from_user s) (to_user s)"
      using is_between_same_pair [OF True] by (auto simp: m new_match_def)
    then have "filter (is_between a b) (dict_values (matches db))
            = filter (is_between (from_user s) (to_user s)) (dict_values (matches db))"
      by simp
    also have "\<dots> = []"
      using nex by (simp add: match_exists_between_iff matches_between_def)
    finally show ?thesis
      using filter_values_dict_set_new [of "is_between a b" m "matches db" mid] True
      by (simp add: matches_between_def ms)
  next
    case False
    have "length (matches_between (snd (add_swipe mid t db s)) a b)
            \<le> length (matches_between db a b)"
      using filter_values_dict_set_le [of "is_between a b" mid m "matches db"] False
      by (simp add: matches_between_def ms)
    then show ?thesis using assms order_trans by blast
  qed
qed

lemma matches_between_unmatch_stored:
  "map match_id (matches_between (unmatch_stored k db) a b) = map match_id (matches_between db a b)"
proof -
  have "map match_id (filter (is_between a b) (map snd (map (\<lambda>(k', m). (k', if k' = k then unmatch m else m)) d)))
      = map match_id (filter (is_between a b) (map snd d))" for d :: "(uuid, Match) dict"
    by (induction d) (auto simp: is_between_unmatch_if match_id_unmatch_if)
  then show ?thesis by (simp add: matches_between_def unmatch_stored_def dict_values_def)
qed

lemma length_matches_between_unmatch_stored:
  "length (matches_between (unmatch_stored k db) a b) = length (matches_between db a b)"
  using matches_between_unmatch_stored [of k db a b] by (metis length_map)

lemma match_exists_unmatch_stored:
  "match_exists_between (unmatch_stored k db) a b = match_exists_between db a b"
  using length_matches_between_unmatch_stored [of k db a b]
  unfolding match_exists_between_iff by (metis length_0_conv)

lemma apply_db_op_preserves:
  "\<forall>a b. length (matches_between db a b) \<le> 1 \<Longrightarrow>
   length (matches_between (apply_db_op db x) a b) \<le> 1"
proof (cases x)
  case (RecordSwipe mid t s)
  assume "\<forall>a b. length (matches_between db a b) \<le> 1"
  then show ?thesis using add_swipe_preserves [of db mid t s a b] RecordSwipe by simp
next
  case (Deactivate k)
  assume "\<forall>a b. length (matches_between db a b) \<le> 1"
  then show ?thesis by (simp add: Deactivate length_matches_between_unmatch_stored)
qed

lemma run_ops_preserves:
  "\<forall>a b. length (matches_between db a b) \<le> 1 \<Longrightarrow>
   length (matches_between (run_ops db ops) a b) \<le> 1"
  unfolding run_ops_def
proof (induction ops arbitrary: db a b)
  case Nil
  then show ?case by simp
next
  case (Cons x xs)
  have "\<forall>a b. length (matches_between (apply_db_op db x) a b) \<le> 1"
    using Cons.prems apply_db_op_preserves by blast
  then show ?case using Cons.IH by simp
qed

lemma run_ops_init_inv: "length (matches_between (run_ops init_db ops) a b) \<le> 1"
  by (rule run_ops_preserves) (simp add: matches_between_def init_db_def dict_values_def)

lemma add_swipe_existing_match:
  "match_exists_between db (from_user s) (to_user s) \<Longrightarrow>
   add_swipe mid t db s = (None, db\<lparr>swipes := dict_set (swipe_id s) s (swipes db)\<rparr>)"
  by (simp add: add_swipe_eq Let_def)

lemma add_swipe_creates:
  assumes "direction s = ''like''"
    and "\<exists>other \<in> set (dict_values (dict_set (swipe_id s) s (swipes db))). is_reverse_like s other"
    and "\<not> match_exists_between db (from_user s) (to_user s)"
  shows "fst (add_swipe mid t db s) = Some (new_match mid t s)"
    and "matches_between (snd (add_swipe mid t db s)) (from_user s) (to_user s)
           = [new_match mid t s]"
proof -
  from assms show "fst (add_swipe mid t db s) = Some (new_match mid t s)"
    by (simp add: add_swipe_eq Let_def)
  have "filter (is_between (from_user s) (to_user s)) (dict_values (matches db)) = []"
    using assms(3) by (simp add: match_exists_between_iff matches_between_def)
  then have "filter (is_between (from_user s) (to_user s))
               (dict_values (dict_set mid (new_match mid t s) (matches db)))
             = [new_match mid t s]"
    using filter_values_dict_set_new
            [of "is_between (from_user s) (to_user s)" "new_match mid t s" "matches db" mid]
          is_between_new_match [of s mid t]
    by blast
  with assms show "matches_between (snd (add_swipe mid t db s)) (from_user s) (to_user s)
                     = [new_match mid t s]"
    by (simp add: add_swipe_eq Let_def matches_between_def)
qed

lemma stored_reverse_like_survives:
  assumes "(k', other) \<in> set (swipes db)" and "k' \<noteq> swipe_id s" and "is_reverse_like s other"
  shows "\<exists>other \<in> set (dict_values (dict_set (swipe_id s) s (swipes db))). is_reverse_like s other"
proof -
  have "(k', other) \<in> set (dict_set (swipe_id s) s (swipes db))"
    using assms(1,2) by (simp add: dict_set_keeps_other)
  then have "other \<in> set (dict_values (dict_set (swipe_id s) s (swipes db)))"
    by (force simp: dict_values_def)
  with assms(3) show ?thesis by blast
qed

lemma dict_set_has_value: "v \<in> set (dict_values (dict_set k v d))"
  by (induction d) (auto simp: dict_values_def)

lemmas example_defs =
  history_def one_like_def run_ops_def init_db_def add_swipe_def Let_def dict_values_def
  like_swipe_def alice_def bob_def carol_def default_user_def is_reverse_like_def
  match_exists_between_def is_between_def new_match_def unmatch_stored_def unmatch_def
  matches_between_def add_match_def

section \<open>Claims about the store\<close>

text \<open>
  C1. In every history of a fresh store that consists of \<^verbatim>\<open>add_swipe\<close> calls and
  deactivations of stored matches (no match is ever deleted), at most one match is stored
  for any unordered pair of users. For every store: when a match between the swipe's two
  users is already stored, \<^verbatim>\<open>add_swipe\<close> only logs the swipe and returns nothing; when
  the swipe is a like, a reverse like is stored under another swipe id and no match
  between the two users is stored, it returns a new match and afterwards exactly that one
  match pairs the two users. The existence check does not depend on the active flag:
  deactivating a stored match leaves its answer unchanged.
\<close>

theorem add_swipe_one_match_per_pair:
  "length (matches_between (run_ops init_db ops) a b) \<le> 1
   \<and> (match_exists_between db (from_user s) (to_user s) \<longrightarrow>
        add_swipe mid t db s = (None, db\<lparr>swipes := dict_set (swipe_id s) s (swipes db)\<rparr>))
   \<and> (direction s = ''like'' \<and> (k', other) \<in> set (swipes db) \<and> k' \<noteq> swipe_id s
        \<and> is_reverse_like s other
        \<and> \<not> match_exists_between db (from_user s) (to_user s) \<longrightarrow>
        fst (add_swipe mid t db s) = Some (new_match mid t s)
        \<and> matches_between (snd (add_swipe mid t db s)) (from_user s) (to_user s)
            = [new_match mid t s])
   \<and> match_exists_between (unmatch_stored k db) a b = match_exists_between db a b"
proof (intro conjI impI)
  show "length (matches_between (run_ops init_db ops) a b) \<le> 1"
    by (rule run_ops_init_inv)
  show "match_exists_between (unmatch_stored k db) a b = match_exists_between db a b"
    by (rule match_exists_unmatch_stored)
next
  assume "match_exists_between db (from_user s) (to_user s)"
  then show "add_swipe mid t db s
               = (None, db\<lparr>swipes := dict_set (swipe_id s) s (swipes db)\<rparr>)"
    by (rule add_swipe_existing_match)
next
  assume h: "direction s = ''like'' \<and> (k', other) \<in> set (swipes db) \<and> k' \<noteq> swipe_id s
        \<and> is_reverse_like s other
        \<and> \<not> match_exists_between db (from_user s) (to_user s)"
  then have ex: "\<exists>other \<in> set (dict_values (dict_set (swipe_id s) s (swipes db))).
                   is_reverse_like s other"
    using stored_reverse_like_survives by blast
  from h ex show "fst (add_swipe mid t db s) = Some (new_match mid t s)"
    using add_swipe_creates(1) by blast
  from h ex show "matches_between (snd (add_swipe mid t db s)) (from_user s) (to_user s)
            = [new_match mid t s]"
    using add_swipe_creates(2) by blast
qed

theorem add_swipe_one_match_per_pair_witness:
  "length (matches_between (run_ops init_db history) alice bob) \<le> 1
   \<and> match_exists_between (run_ops init_db history) bob alice
   \<and> add_swipe 103 0 (run_ops init_db history) (like_swipe 13 bob alice)
       = (None, (run_ops init_db history)\<lparr>swipes :=
           dict_set 13 (like_swipe 13 bob alice) (swipes (run_ops init_db history))\<rparr>)
   \<and> direction (like_swipe 11 bob alice) = ''like''
   \<and> (10, like_swipe 10 alice bob) \<in> set (swipes (run_ops init_db one_like))
   \<and> 10 \<noteq> swipe_id (like_swipe 11 bob alice)
   \<and> is_reverse_like (like_swipe 11 bob alice) (like_swipe 10 alice bob)
   \<and> \<not> match_exists_between (run_ops init_db one_like) bob alice
   \<and> fst (add_swipe 101 0 (run_ops init_db one_like) (like_swipe 11 bob alice))
       = Some (new_match 101 0 (like_swipe 11 bob alice))
   \<and> matches_between (snd (add_swipe 101 0 (run_ops init_db one_like) (like_swipe 11 bob alice)))
        bob alice = [new_match 101 0 (like_swipe 11 bob alice)]
   \<and> match_exists_between (unmatch_stored 101 (run_ops init_db history)) alice bob
       = match_exists_between (run_ops init_db history) alice bob"
proof -
  let ?db1 = "run_ops init_db one_like"
  let ?db = "run_ops init_db history"
  have a: "match_exists_between ?db (from_user (like_swipe 13 bob alice))
             (to_user (like_swipe 13 bob alice))"
    by (simp add: example_defs)
  have b: "direction (like_swipe 11 bob alice) = ''like''"
    by (simp add: like_swipe_def)
  have c: "(10, like_swipe 10 alice bob) \<in> set (swipes ?db1)"
    by (simp add: example_defs)
  have c': "10 \<noteq> swipe_id (like_swipe 11 bob alice)"
    by (simp add: like_swipe_def)
  have c'': "is_reverse_like (like_swipe 11 bob alice) (like_swipe 10 alice bob)"
    by (simp add: example_defs)
  have d: "\<not> match_exists_between ?db1 (from_user (like_swipe 11 bob alice))
             (to_user (like_swipe 11 bob alice))"
    by (simp add: example_defs)
  have fb: "from_user (like_swipe 11 bob alice) = bob" "to_user (like_swipe 11 bob alice) = alice"
    "from_user (like_swipe 13 bob alice) = bob" "to_user (like_swipe 13 bob alice) = alice"
    "swipe_id (like_swipe 13 bob alice) = 13"
    by (simp_all add: like_swipe_def)
  show ?thesis
    using add_swipe_one_match_per_pair
            [of history alice bob ?db "like_swipe 13 bob alice" 103 0 10 "like_swipe 10 alice bob" 101]
          add_swipe_one_match_per_pair
            [of history alice bob ?db1 "like_swipe 11 bob alice" 101 0 10 "like_swipe 10 alice bob" 101]
          a b c c' c'' d
    unfolding fb by blast
qed

lemmas example_defs2 = example_defs duplicate_match_def mutual_likes_def

lemma dict_set_fresh: "k \<notin> fst ` set d \<Longrightarrow> dict_set k v d = d @ [(k, v)]"
  by (induction d) auto

lemma add_swipe_returns:
  assumes "fst (add_swipe mid t db s) = Some m"
  shows "direction s = ''like''" and "m = new_match mid t s"
  using assms by (auto simp: add_swipe_eq Let_def split: if_splits)

text \<open>
  C8 (as the code has it). A match returned by \<^verbatim>\<open>add_swipe\<close> comes from a like and holds
  the swipe's actor in slot a and its target in slot b, so its two users have different
  identifiers exactly when the swipe's actor and target have. The store has no check that
  they differ: a like whose actor and target are the same user, on a store with no match
  of that user with itself, returns a match that pairs the user with itself (the scan
  sees the swipe just stored as its own reverse like).
\<close>

theorem add_swipe_match_users:
  "(fst (add_swipe mid t db s) = Some m \<longrightarrow>
      direction s = ''like'' \<and> user_a m = from_user s \<and> user_b m = to_user s
      \<and> (user_id (user_a m) \<noteq> user_id (user_b m)
           \<longleftrightarrow> user_id (from_user s) \<noteq> user_id (to_user s)))
   \<and> (direction s = ''like'' \<and> user_id (from_user s) = user_id (to_user s)
        \<and> \<not> match_exists_between db (from_user s) (to_user s) \<longrightarrow>
      fst (add_swipe mid t db s) = Some (new_match mid t s))"
proof (intro conjI impI)
  assume r: "fst (add_swipe mid t db s) = Some m"
  then show "direction s = ''like''" by (rule add_swipe_returns(1))
  from r have m: "m = new_match mid t s" by (rule add_swipe_returns(2))
  then show "user_a m = from_user s" "user_b m = to_user s"
    "(user_id (user_a m) \<noteq> user_id (user_b m)) = (user_id (from_user s) \<noteq> user_id (to_user s))"
    by (simp_all add: new_match_def)
next
  assume h: "direction s = ''like'' \<and> user_id (from_user s) = user_id (to_user s)
        \<and> \<not> match_exists_between db (from_user s) (to_user s)"
  then have "is_reverse_like s s" by (simp add: is_reverse_like_def)
  then have "\<exists>other \<in> set (dict_values (dict_set (swipe_id s) s (swipes db))). is_reverse_like s other"
    by (intro bexI [of _ s]) (simp_all add: dict_set_has_value)
  with h show "fst (add_swipe mid t db s) = Some (new_match mid t s)"
    using add_swipe_creates(1) by blast
qed

theorem add_swipe_match_users_witness:
  "fst (add_swipe 101 0 (run_ops init_db one_like) (like_swipe 11 bob alice))
     = Some (new_match 101 0 (like_swipe 11 bob alice))
   \<and> user_a (new_match 101 0 (like_swipe 11 bob alice)) = bob
   \<and> user_b (new_match 101 0 (like_swipe 11 bob alice)) = alice
   \<and> user_id bob \<noteq> user_id alice
   \<and> direction (like_swipe 10 alice alice) = ''like''
   \<and> user_id (from_user (like_swipe 10 alice alice)) = user_id (to_user (like_swipe 10 alice alice))
   \<and> \<not> match_exists_between init_db alice alice
   \<and> fst (add_swipe 100 0 init_db (like_swipe 10 alice alice))
       = Some (new_match 100 0 (like_swipe 10 alice alice))"
proof -
  have a: "fst (add_swipe 101 0 (run_ops init_db one_like) (like_swipe 11 bob alice))
     = Some (new_match 101 0 (like_swipe 11 bob alice))"
    by (simp add: example_defs)
  have b: "direction (like_swipe 10 alice alice) = ''like''"
    "user_id (from_user (like_swipe 10 alice alice)) = user_id (to_user (like_swipe 10 alice alice))"
    "\<not> match_exists_between init_db (from_user (like_swipe 10 alice alice))
          (to_user (like_swipe 10 alice alice))"
    by (simp_all add: example_defs)
  have c: "from_user (like_swipe 11 bob alice) = bob" "to_user (like_swipe 11 bob alice) = alice"
    "from_user (like_swipe 10 alice alice) = alice" "to_user (like_swipe 10 alice alice) = alice"
    by (simp_all add: like_swipe_def)
  have d: "user_id bob \<noteq> user_id alice" by (simp add: example_defs)
  show ?thesis
    using add_swipe_match_users [of 101 0 "run_ops init_db one_like" "like_swipe 11 bob alice"
            "new_match 101 0 (like_swipe 11 bob alice)"]
          add_swipe_match_users [of 100 0 init_db "like_swipe 10 alice alice"
            "new_match 100 0 (like_swipe 10 alice alice)"]
          a b d unfolding c by (simp add: c)
qed

text \<open>
  C8 as stated fails: on the fresh store, Alice's like of herself returns a match whose
  two users have the same identifier.
\<close>

theorem add_swipe_self_like_counterexample:
  "fst (add_swipe 100 0 init_db (like_swipe 10 alice alice))
     = Some (new_match 100 0 (like_swipe 10 alice alice))
   \<and> user_id (user_a (new_match 100 0 (like_swipe 10 alice alice)))
       = user_id (user_b (new_match 100 0 (like_swipe 10 alice alice)))"
  by (simp add: example_defs)

text \<open>
  C10. \<^verbatim>\<open>add_match\<close> stores the given match under its \<^verbatim>\<open>match_id\<close> whatever the store
  holds: the match is among the stored values afterwards, and under a key not yet used it
  is appended to the matches of its own pair. \<^verbatim>\<open>add_swipe\<close> preserves "at most one match
  per unordered pair"; \<^verbatim>\<open>add_match\<close> does not: after the mutual likes of Alice and Bob
  the property holds, and one \<^verbatim>\<open>add_match\<close> later two matches pair Alice and Bob.
\<close>

theorem add_match_unconditional:
  "matches (add_match db m) = dict_set (match_id m) m (matches db)
   \<and> m \<in> set (dict_values (matches (add_match db m)))
   \<and> (match_id m \<notin> fst ` set (matches db) \<longrightarrow>
        matches_between (add_match db m) (user_a m) (user_b m)
          = matches_between db (user_a m) (user_b m) @ [m])
   \<and> ((\<forall>a b. length (matches_between db a b) \<le> 1) \<longrightarrow>
        (\<forall>a b. length (matches_between (snd (add_swipe mid t db s)) a b) \<le> 1))
   \<and> (\<forall>a b. length (matches_between (run_ops init_db mutual_likes) a b) \<le> 1)
   \<and> length (matches_between (add_match (run_ops init_db mutual_likes) duplicate_match) alice bob) = 2"
proof (intro conjI impI allI)
  show "matches (add_match db m) = dict_set (match_id m) m (matches db)"
    by (simp add: add_match_def)
  show "m \<in> set (dict_values (matches (add_match db m)))"
    by (simp add: add_match_def dict_set_has_value)
  show "length (matches_between (run_ops init_db mutual_likes) a b) \<le> 1" for a b
    by (rule run_ops_init_inv)
  show "length (matches_between (add_match (run_ops init_db mutual_likes) duplicate_match) alice bob) = 2"
    by (simp add: example_defs2)
next
  assume "match_id m \<notin> fst ` set (matches db)"
  then have "dict_set (match_id m) m (matches db) = matches db @ [(match_id m, m)]"
    by (rule dict_set_fresh)
  then show "matches_between (add_match db m) (user_a m) (user_b m)
          = matches_between db (user_a m) (user_b m) @ [m]"
    by (simp add: matches_between_def add_match_def dict_values_def is_between_def)
next
  fix a b
  assume "\<forall>a b. length (matches_between db a b) \<le> 1"
  then show "length (matches_between (snd (add_swipe mid t db s)) a b) \<le> 1"
    by (rule add_swipe_preserves)
qed

theorem add_match_unconditional_witness:
  "match_id duplicate_match \<notin> fst ` set (matches (run_ops init_db mutual_likes))
   \<and> matches_between (run_ops init_db mutual_likes) alice bob
       = [new_match 101 0 (like_swipe 11 bob alice)]
   \<and> matches_between (add_match (run_ops init_db mutual_likes) duplicate_match) alice bob
       = [new_match 101 0 (like_swipe 11 bob alice), duplicate_match]
   \<and> (\<forall>a b. length (matches_between init_db a b) \<le> 1)
   \<and> (\<forall>a b. length (matches_between
          (snd (add_swipe 100 0 init_db (like_swipe 10 alice bob))) a b) \<le> 1)"
proof -
  have a: "match_id duplicate_match \<notin> fst ` set (matches (run_ops init_db mutual_likes))"
    by (simp add: example_defs2)
  have b: "matches_between (run_ops init_db mutual_likes) alice bob
       = [new_match 101 0 (like_swipe 11 bob alice)]"
    by (simp add: example_defs2)
  have c: "user_a duplicate_match = alice" "user_b duplicate_match = bob"
    by (simp_all add: duplicate_match_def)
  have d: "\<forall>a b. length (matches_between init_db a b) \<le> 1"
    by (simp add: matches_between_def init_db_def dict_values_def)
  show ?thesis
    using add_match_unconditional [of "run_ops init_db mutual_likes" duplicate_match 100 0
            "like_swipe 10 alice bob"]
          add_match_unconditional [of init_db duplicate_match 100 0 "like_swipe 10 alice bob"]
          a b d unfolding c by simp
qed

section \<open>Claims about the scoring engine\<close>

lemmas engine_defs = ex_today_def newborn_profile_def viewer_def newborn_def default_profile_def
  default_preferences_def default_user_def zero_rng_def alice_def bob_def carol_def
  score_def score_gender_def score_age_def shared_interests_def score_interests_def score_completeness_def
  score_distance_def age_def age_from_birthdate_def tuple_lt_def matches_age_def
  complete_percentage_def py_int_def random_random_def Let_def

text \<open>
  C2. When the viewer or the candidate has no profile, \<^verbatim>\<open>score\<close> returns exactly -1.0.
  No other term is evaluated: the result depends on nothing else, and the random source
  is left as it was (no tie-breaker is drawn).
\<close>

theorem score_missing_profile:
  "profile a = None \<or> profile b = None \<Longrightarrow> score g today a b = (- 1, g)"
  by (auto simp: score_def split: option.splits)

theorem score_missing_profile_witness:
  "profile alice = None \<and> score zero_rng ex_today alice viewer = (- 1, zero_rng)
   \<and> profile bob = None \<and> score zero_rng ex_today viewer bob = (- 1, zero_rng)"
proof -
  have a: "profile alice = None" and b: "profile bob = None"
    by (simp_all add: alice_def bob_def default_user_def)
  show ?thesis
    using score_missing_profile [of alice viewer zero_rng ex_today]
          score_missing_profile [of viewer bob zero_rng ex_today] a b
    by simp
qed

text \<open>
  The age block on its own: skipped without a birthdate, and for every computed age other
  than 0 the bonus of 15 inside the inclusive range and the linear penalty outside it.
\<close>

lemma score_age_no_birthdate: "birthdate pb = None \<Longrightarrow> score_age today pref pb s = s"
  by (simp add: score_age_def age_def)

lemma score_age_nonzero:
  assumes "birthdate pb = Some bd" and "age_from_birthdate today bd = n" and "n \<noteq> 0"
  shows "score_age today pref pb s =
           (if age_min pref \<le> n \<and> n \<le> age_max pref then s + 15
            else if n < age_min pref then s - real_of_int (age_min pref - n)
            else s - real_of_int (n - age_max pref))"
  using assms by (auto simp: score_age_def age_def matches_age_def)

text \<open>
  C3 fails on the code for a computed age of 0. On 2024-06-15 a candidate born on
  2024-01-01 has age 0, which is outside the viewer's range 18..99, so the claim demands
  a penalty of 18; the test \<^verbatim>\<open>if b_age:\<close> takes 0 for a missing age and the block leaves
  the running score unchanged. The whole score is -8.4 (gender -10, completeness 1.6,
  tie-breaker 0) where the claim gives -26.4.
\<close>

theorem score_age_zero_is_skipped:
  "birthdate newborn_profile = Some \<lparr>year = 2024, month = 1, day = 1\<rparr>
   \<and> age ex_today newborn_profile = Some 0
   \<and> \<not> matches_age default_preferences 0
   \<and> real_of_int (age_min default_preferences - 0) = 18
   \<and> score_age ex_today default_preferences newborn_profile s = s
   \<and> fst (score zero_rng ex_today viewer newborn) = - 8.4"
  by (simp add: engine_defs)

text \<open>
  The root \<^verbatim>\<open>** 0.5\<close> is the square root, the distance is never negative, and the divisor
  of the proximity bonus is at least 1 whatever \<^verbatim>\<open>max_distance_km\<close> is, so the division
  cannot fail.
\<close>

lemma distance_km_to_sqrt:
  "distance_km_to l1 l2 = sqrt (((lat l1 - lat l2) * 111)\<^sup>2 + ((lon l1 - lon l2) * 111)\<^sup>2)"
proof -
  have "0 \<le> ((lat l1 - lat l2) * 111) * ((lat l1 - lat l2) * 111)
           + ((lon l1 - lon l2) * 111) * ((lon l1 - lon l2) * 111)"
    by simp
  then show ?thesis
    by (simp add: distance_km_to_def Let_def powr_half_sqrt power2_eq_square)
qed

lemma distance_km_to_nonneg: "0 \<le> distance_km_to l1 l2"
  by (simp add: distance_km_to_sqrt)

lemma proximity_divisor_positive: "1 \<le> real_of_int (max 1 d)"
  by simp

lemma score_distance_located:
  assumes "location pa = Some la" and "location pb = Some lb"
  shows "score_distance pa pb pref s =
     (if distance_km_to la lb > real_of_int (max_distance_km pref)
      then s - (distance_km_to la lb - real_of_int (max_distance_km pref)) * 0.2
      else s + ((real_of_int (max_distance_km pref) - distance_km_to la lb)
                  / real_of_int (max 1 (max_distance_km pref))) * 10)"
proof (cases "distance_km_to la lb > real_of_int (max_distance_km pref)")
  case True
  then show ?thesis using assms by (simp add: score_distance_def Let_def)
next
  case False
  then have "0 \<le> real_of_int (max_distance_km pref) - distance_km_to la lb" by simp
  moreover have "0 < real_of_int (max 1 (max_distance_km pref))" by simp
  ultimately have "0 \<le> (real_of_int (max_distance_km pref) - distance_km_to la lb)
                  / real_of_int (max 1 (max_distance_km pref))"
    by (rule divide_nonneg_pos)
  then have "max 0 ((real_of_int (max_distance_km pref) - distance_km_to la lb)
                  / real_of_int (max 1 (max_distance_km pref)))
             = (real_of_int (max_distance_km pref) - distance_km_to la lb)
                  / real_of_int (max 1 (max_distance_km pref))"
    by (rule max_absorb2)
  with False assms show ?thesis
    by (simp add: score_distance_def Let_def del: of_int_max)
qed

lemma score_unfold:
  assumes "profile a = Some pa" and "profile b = Some pb"
  shows "fst (score g today a b) =
           score_distance pa pb (preferences pa)
             (score_completeness pb
               (score_interests (preferences pa) pb
                 (score_age today (preferences pa) pb
                   (score_gender (preferences pa) pb 0)))) + g 0 * 2"
  using assms by (simp add: score_def Let_def random_random_def)

lemma score_located:
  assumes "profile a = Some pa" and "profile b = Some pb"
    and "location pa = Some la" and "location pb = Some lb"
  shows "fst (score g today a b) =
          (let base = score_completeness pb
                        (score_interests (preferences pa) pb
                          (score_age today (preferences pa) pb
                            (score_gender (preferences pa) pb 0)));
               dist = distance_km_to la lb;
               max_d = max_distance_km (preferences pa)
           in (if dist > real_of_int max_d
               then base - (dist - real_of_int max_d) * 0.2
               else base + ((real_of_int max_d - dist) / real_of_int (max 1 max_d)) * 10)
              + g 0 * 2)"
  unfolding score_unfold [OF assms(1,2)] score_distance_located [OF assms(3,4)] Let_def
  by simp

text \<open>
  C6. The distance between two locations is \<open>sqrt (dx\<^sup>2 + dy\<^sup>2)\<close> with
  \<open>dx = (lat1 - lat2) * 111\<close> and \<open>dy = (lon1 - lon2) * 111\<close>. When both users have a
  location, the distance block of \<^verbatim>\<open>score\<close> subtracts \<open>(distance - max_distance_km) * 0.2\<close>
  if the distance exceeds the viewer's \<^verbatim>\<open>max_distance_km\<close> and otherwise adds
  \<open>((max_distance_km - distance) / max 1 max_distance_km) * 10\<close> (the source's outer
  \<^verbatim>\<open>max(0, ...)\<close> changes nothing there); the returned score is the value of the earlier
  blocks changed by exactly that amount, plus twice the tie-breaker.
\<close>

theorem distance_formula_and_term:
  "distance_km_to l1 l2 = sqrt (((lat l1 - lat l2) * 111)\<^sup>2 + ((lon l1 - lon l2) * 111)\<^sup>2)
   \<and> (location pa = Some la \<and> location pb = Some lb \<longrightarrow>
        score_distance pa pb pref s =
          (if distance_km_to la lb > real_of_int (max_distance_km pref)
           then s - (distance_km_to la lb - real_of_int (max_distance_km pref)) * 0.2
           else s + ((real_of_int (max_distance_km pref) - distance_km_to la lb)
                       / real_of_int (max 1 (max_distance_km pref))) * 10))
   \<and> (profile a = Some pa \<and> profile b = Some pb
        \<and> location pa = Some la \<and> location pb = Some lb \<longrightarrow>
        fst (score g today a b) =
          (let base = score_completeness pb
                        (score_interests (preferences pa) pb
                          (score_age today (preferences pa) pb
                            (score_gender (preferences pa) pb 0)));
               dist = distance_km_to la lb;
               max_d = max_distance_km (preferences pa)
           in (if dist > real_of_int max_d
               then base - (dist - real_of_int max_d) * 0.2
               else base + ((real_of_int max_d - dist) / real_of_int (max 1 max_d)) * 10)
              + g 0 * 2))"
  using distance_km_to_sqrt score_distance_located score_located by blast

lemmas located_defs = located_viewer_def far_candidate_def origin_def one_degree_north_def

theorem distance_formula_and_term_witness:
  "distance_km_to one_degree_north origin = 111
   \<and> profile located_viewer = Some ((default_profile 21)\<lparr>location := Some origin\<rparr>)
   \<and> profile far_candidate = Some ((default_profile 23)\<lparr>location := Some one_degree_north\<rparr>)
   \<and> location ((default_profile 21)\<lparr>location := Some origin\<rparr>) = Some origin
   \<and> location ((default_profile 23)\<lparr>location := Some one_degree_north\<rparr>) = Some one_degree_north
   \<and> score_distance ((default_profile 21)\<lparr>location := Some origin\<rparr>)
        ((default_profile 23)\<lparr>location := Some one_degree_north\<rparr>) default_preferences 0 = - 2.2
   \<and> fst (score zero_rng ex_today located_viewer far_candidate) = - 10.6
   \<and> fst (score zero_rng ex_today located_viewer located_viewer) = 1.6"
proof -
  let ?pa = "(default_profile 21)\<lparr>location := Some origin\<rparr>"
  let ?pb = "(default_profile 23)\<lparr>location := Some one_degree_north\<rparr>"
  have root: "sqrt (12321 :: real) = 111"
    by (rule real_sqrt_unique) simp_all
  have far: "distance_km_to origin one_degree_north = 111"
    "distance_km_to one_degree_north origin = 111"
    using distance_formula_and_term [of origin one_degree_north]
          distance_formula_and_term [of one_degree_north origin]
    by (simp_all add: located_defs root)
  have near: "distance_km_to origin origin = 0"
    using distance_formula_and_term [of origin origin] by simp
  have p: "profile located_viewer = Some ?pa" "profile far_candidate = Some ?pb"
    "location ?pa = Some origin" "location ?pb = Some one_degree_north"
    by (simp_all add: located_defs)
  have t: "score_distance ?pa ?pb default_preferences 0 = - 2.2"
    using distance_formula_and_term [of _ _ ?pa origin ?pb one_degree_north default_preferences 0] p far
    by (simp add: default_preferences_def)
  have s1: "fst (score zero_rng ex_today located_viewer far_candidate) = - 10.6"
    using distance_formula_and_term
            [of _ _ ?pa origin ?pb one_degree_north _ _ located_viewer far_candidate zero_rng ex_today]
          p far
    by (simp add: engine_defs)
  have s2: "fst (score zero_rng ex_today located_viewer located_viewer) = 1.6"
    using distance_formula_and_term
            [of _ _ ?pa origin ?pa origin _ _ located_viewer located_viewer zero_rng ex_today]
          p near
    by (simp add: engine_defs)
  show ?thesis using far p t s1 s2 by simp
qed

text \<open>
  The interest block. The set of shared tags is the intersection of the two interest lists
  taken as sets of strings, so a tag repeated in a list counts once and tags that differ
  in case are different tags; that count is an integer and is the same in the program.
  The block adds 5 times the count to the running score. Here the sum is exact; in the
  program each \<^verbatim>\<open>+=\<close> on the float \<^verbatim>\<open>score\<close> is rounded to a double, so an exact
  difference between two returned scores (5 per shared tag, a margin of 10 for two shared
  tags) is a statement about that rounding and is not derived from these definitions.
\<close>

lemma score_interests_eq:
  "score_interests pref pb s = s + 5 * real (card (shared_interests pref pb))"
  by (simp add: score_interests_def Let_def)

lemma shared_interests_with:
  "shared_interests pref (with_interests pb ys) = set (interests pref) \<inter> set ys"
  by (simp add: shared_interests_def with_interests_def)

lemma shared_interests_counted_as_sets:
  "card (shared_interests
           (preferences (with_interests (default_profile 31) [''hiking'', ''hiking'', ''coffee'']))
           (with_interests (default_profile 33) [''hiking'', ''Hiking''])) = 1"
  by (simp add: shared_interests_def with_interests_def)


section \<open>Claims about the ranking\<close>

text \<open>
  The loop keeps exactly the candidates other than the user, in order, each with a score
  that \<^verbatim>\<open>score\<close> returned for it; sorting and slicing keep a sorted sublist.
\<close>

lemma loop_users:
  "map snd (fst (compute_matches_loop g today user cands scored))
     = map snd scored @ eligible user cands"
  by (induction cands arbitrary: g scored) (auto simp: eligible_def split: prod.splits)


lemma length_loop:
  "length (fst (compute_matches_loop g today user cands scored))
     = length scored + length (eligible user cands)"
  using loop_users [of g today user cands scored]
  by (metis length_append length_map)


lemma length_sort_scored: "length (sort_scored xs) = length xs"
  by (simp add: sort_scored_def)





lemma length_py_slice_to_neg: "k < 0 \<Longrightarrow> length (py_slice_to k xs) = length xs - nat (- k)"
  by (auto simp: py_slice_to_def)

lemmas ranking_defs = compute_matches_def ranked_def py_slice_to_def sort_scored_def






lemma length_ranked_neg:
  "k < 0 \<Longrightarrow> length (ranked g today user cands (Some k)) = length (eligible user cands) - nat (- k)"
  by (simp add: ranked_def Let_def length_py_slice_to_neg length_sort_scored length_loop)






text \<open>
  C4 (as the code has it). \<^verbatim>\<open>top_k = 0\<close> gives the empty list and an omitted \<^verbatim>\<open>top_k\<close> is
  10. A negative \<^verbatim>\<open>top_k = -n\<close> is a slice bound counted from the end: the result is the
  ranking of the eligible candidates without its last \<open>n\<close> entries, so it has
  \<open>length (eligible user cands) - n\<close> entries and is empty only when there are at most \<open>n\<close>
  eligible candidates.
\<close>

theorem compute_matches_nonpositive_top_k:
  "compute_matches g today user cands (Some 0) = []
   \<and> (k < 0 \<longrightarrow>
        compute_matches g today user cands (Some k)
          = map snd (take (length (eligible user cands) - nat (- k))
                       (sort_scored (fst (compute_matches_loop g today user cands [])))))
   \<and> (k < 0 \<longrightarrow>
        length (compute_matches g today user cands (Some k))
          = length (eligible user cands) - nat (- k))
   \<and> (k \<le> 0 \<and> length (eligible user cands) \<le> nat (- k) \<longrightarrow>
        compute_matches g today user cands (Some k) = [])
   \<and> compute_matches g today user cands None = compute_matches g today user cands (Some 10)"
proof (intro conjI impI)
  show z: "compute_matches g today user cands (Some 0) = []"
    by (simp add: ranking_defs)
  show "compute_matches g today user cands None = compute_matches g today user cands (Some 10)"
    by (simp add: compute_matches_def ranked_def)
  {
    assume k: "k < 0"
    have "int (length (sort_scored (fst (compute_matches_loop g today user cands [])))) + k
            = int (length (eligible user cands)) + k"
      by (simp add: length_sort_scored length_loop)
    moreover have "nat (int (length (eligible user cands)) + k)
                     = length (eligible user cands) - nat (- k)"
      using k by linarith
    ultimately show "compute_matches g today user cands (Some k)
          = map snd (take (length (eligible user cands) - nat (- k))
                       (sort_scored (fst (compute_matches_loop g today user cands []))))"
      using k by (simp add: compute_matches_def ranked_def py_slice_to_def)
    show "length (compute_matches g today user cands (Some k))
          = length (eligible user cands) - nat (- k)"
      using k by (simp add: compute_matches_def length_ranked_neg)
  }
  assume h: "k \<le> 0 \<and> length (eligible user cands) \<le> nat (- k)"
  show "compute_matches g today user cands (Some k) = []"
  proof (cases "k = 0")
    case True
    then show ?thesis using z by simp
  next
    case False
    with h have "k < 0" by simp
    then have "length (compute_matches g today user cands (Some k))
                 = length (eligible user cands) - nat (- k)"
      by (simp add: compute_matches_def length_ranked_neg)
    with h show ?thesis by simp
  qed
qed


theorem compute_matches_nonpositive_top_k_witness:
  "(- 1 :: int) < 0
   \<and> eligible alice [bob, carol] = [bob, carol]
   \<and> length (compute_matches zero_rng ex_today alice [bob, carol] (Some (- 1))) = 1
   \<and> (- 2 :: int) \<le> 0 \<and> length (eligible alice [bob, carol]) \<le> nat (- (- 2))
   \<and> compute_matches zero_rng ex_today alice [bob, carol] (Some (- 2)) = []
   \<and> compute_matches zero_rng ex_today alice [bob, carol] (Some 0) = []
   \<and> compute_matches zero_rng ex_today alice [bob, carol] None
       = compute_matches zero_rng ex_today alice [bob, carol] (Some 10)"
proof -
  have e: "eligible alice [bob, carol] = [bob, carol]"
    by (simp add: eligible_def alice_def bob_def carol_def default_user_def)
  note T1 = compute_matches_nonpositive_top_k [of zero_rng ex_today alice "[bob, carol]" "- 1"]
  note T2 = compute_matches_nonpositive_top_k [of zero_rng ex_today alice "[bob, carol]" "- 2"]
  have n: "(- 1 :: int) < 0" by simp
  have "length (compute_matches zero_rng ex_today alice [bob, carol] (Some (- 1)))
          = length (eligible alice [bob, carol]) - nat (- (- 1))"
    by (rule T1 [THEN conjunct2, THEN conjunct2, THEN conjunct1, THEN mp, OF n])
  then have a: "length (compute_matches zero_rng ex_today alice [bob, carol] (Some (- 1))) = 1"
    unfolding e by simp
  have b: "(- 2 :: int) \<le> 0" "length (eligible alice [bob, carol]) \<le> nat (- (- 2))"
    using e by simp_all
  have c: "compute_matches zero_rng ex_today alice [bob, carol] (Some (- 2)) = []"
    using T2 b by blast
  have d: "compute_matches zero_rng ex_today alice [bob, carol] (Some 0) = []"
    "compute_matches zero_rng ex_today alice [bob, carol] None
       = compute_matches zero_rng ex_today alice [bob, carol] (Some 10)"
    using T1 by blast+
  show ?thesis
    using n e a b c d by (intro conjI)
qed

text \<open>
  C4 as stated fails for a negative \<^verbatim>\<open>top_k\<close>: with two eligible candidates and
  \<^verbatim>\<open>top_k = -1\<close> the result holds one user.
\<close>

theorem compute_matches_negative_top_k_counterexample:
  "compute_matches zero_rng ex_today alice [bob, carol] (Some (- 1)) = [bob]"
  by (simp add: ranking_defs engine_defs)

end
